theory Spec2Isabelle
  imports Main
begin

section \<open>Values shared by the handlers\<close>

text \<open>
  A JavaScript error as the controllers inspect it: \<open>error.name\<close>, \<open>error.kind\<close>
  (set to \<open>ObjectId\<close> by a failed identifier cast), \<open>error.code\<close> (11000 for a
  duplicate key) and the messages of \<open>Object.values(error.errors)\<close>.
\<close>

record js_error =
  err_name :: string
  err_kind :: "string option"
  err_code :: "nat option"
  err_errors :: "string list"
  err_message :: string

text \<open>
  Text is a list of UTF-16 code units, which is what \<open>length\<close>, \<open>slice\<close> and \<open>trim\<close>
  count in JavaScript; a \<open>char\<close> holds a code unit below 256, that is, ASCII and the
  accented letters of the messages.

  A document identifier is an \<open>ObjectId\<close>, a number of 96 bits. Its text form is 24
  hexadecimal digits; the cast of a text to an identifier is \<open>cast_object_id\<close> below.
\<close>

type_synonym object_id = int

text \<open>
  A user document. \<open>password\<close> is optional because \<open>authenticate\<close> deletes it;
  \<open>createdAt\<close>, \<open>updatedAt\<close> (schema option \<open>timestamps\<close>) and the version key
  \<open>__v\<close> are optional because a projection can leave them out.
\<close>

record user_doc =
  user_id :: object_id
  user_name :: string
  user_email :: string
  user_password :: "string option"
  user_createdAt :: "int option"
  user_updatedAt :: "int option"
  user_version :: "nat option"

text \<open>The payload \<open>{ user: user }\<close> that is signed into a token and decoded from it.\<close>

record jwt_payload =
  payload_user :: "user_doc option"

text \<open>What a handler passes to \<open>res.render\<close> or \<open>res.json\<close>.\<close>

datatype data =
    NoData
  | Message string
  | Errors "string list"
  | ErrorKind "string option"
  | InternalServerError js_error
  | ErrorObject js_error
  | Text string
  | UserMessage user_doc string

datatype reply =
    Render string data
  | Json data
  | Redirect string

record cookie =
  cookie_name :: string
  cookie_value :: string
  cookie_httpOnly :: bool
  cookie_maxAge :: nat

text \<open>
  The response: the value given to \<open>res.status\<close> (200 when the handler sets none, 302
  for \<open>res.redirect(url)\<close>, which overrides it), the reply and the cookies set.
\<close>

record response =
  status :: nat
  reply :: reply
  cookies :: "cookie list"

definition respond :: "nat \<Rightarrow> reply \<Rightarrow> response" where
  "respond s r = \<lparr>status = s, reply = r, cookies = []\<rparr>"

text \<open>The request body after the schema's casts; an absent field is \<open>None\<close>.\<close>

record body =
  body_name :: "string option"
  body_email :: "string option"
  body_password :: "string option"
  body_catwayNumber :: "int option"
  body_type :: "string option"
  body_catwayState :: "string option"
  body_boatName :: "string option"
  body_clientName :: "string option"
  body_checkIn :: "int option"
  body_checkOut :: "int option"

text \<open>
  \<open>req.cookies.authToken\<close> as the cookie parser installed in \<open>app.js\<close> leaves it: the
  text of the cookie, or, for a cookie of the form \<open>j:\<close> followed by JSON whose value
  is truthy, that value: a text again when the JSON is a string, and otherwise an object,
  an array, a number or \<open>true\<close>.
\<close>

datatype json_kind = JsonObject | JsonArray | JsonNumber | JsonTrue

datatype cookie_value = TextCookie string | JsonCookie json_kind

record request =
  authToken :: "cookie_value option"
  req_user :: "user_doc option"
  param_id :: string
  param_idReservation :: string
  referer :: "string option"
  session_message :: "string option"
  req_body :: body

section \<open>The request gate\<close>

text \<open>
  \<open>toLowerCase\<close> on code units below 256: the letters A to Z and the accented capitals
  (192 to 222, without the multiplication sign 215) move up by 32.
\<close>

definition to_lower_char :: "char \<Rightarrow> char" where
  "to_lower_char c =
     (let n = (of_char c :: nat)
      in if (65 \<le> n \<and> n \<le> 90) \<or> (192 \<le> n \<and> n \<le> 222 \<and> n \<noteq> 215) then char_of (n + 32)
         else c)"

definition toLowerCase :: "string \<Rightarrow> string" where
  "toLowerCase s = map to_lower_char s"

definition startsWith :: "string \<Rightarrow> string \<Rightarrow> bool" where
  "startsWith s p = (take (length p) s = p)"

fun includes_str :: "string \<Rightarrow> string \<Rightarrow> bool" where
  "includes_str [] p = (p = [])"
| "includes_str (c # cs) p = (startsWith (c # cs) p \<or> includes_str cs p)"

text \<open>
  The result of the gate: the response it sent, if any, the requests with which it
  invoked \<open>next\<close>, one entry for each invocation, and the error that left the
  middleware, if any. \<open>checkJWT\<close> is an \<open>async\<close> function without \<open>try\<close>, so an
  error raised in it ends the middleware with neither a response nor a call of
  \<open>next\<close>.
\<close>

record gate_result =
  gate_response :: "response option"
  nexts :: "request list"
  gate_raised :: "js_error option"

text \<open>
  Lines 131 to 134: a token that is not empty and whose lower-cased text starts with
  \<open>bearer\<close> loses its first seven code units.
\<close>

definition strip_bearer :: "string option \<Rightarrow> string option" where
  "strip_bearer token =
     (case token of
        None \<Rightarrow> None
      | Some t \<Rightarrow>
          if t \<noteq> [] \<and> startsWith (toLowerCase t) ''bearer'' then Some (drop 7 t)
          else Some t)"

text \<open>The accented letters of the message literals, one code unit each.\<close>

abbreviation e_acute :: string where "e_acute \<equiv> [CHR 0xE9]"
abbreviation e_grave :: string where "e_grave \<equiv> [CHR 0xE8]"
abbreviation e_circ :: string where "e_circ \<equiv> [CHR 0xEA]"
abbreviation a_grave :: string where "a_grave \<equiv> [CHR 0xE0]"

text \<open>
  The literal of line 150 holds the two characters U+221A and U+00A9 in place of an
  accented letter. U+221A is beyond the code units of \<open>char\<close> and is written as its three
  UTF-8 bytes.
\<close>

definition login_required :: string where
  "login_required =
     ''Connectez vous pour acc'' @ [CHR 0xE2, CHR 0x88, CHR 0x9A] @ [CHR 0xA9]
       @ ''der a cette page''"

text \<open>
  Lines 136 to 151: a token that is present and not empty goes to \<open>jwt.verify\<close>, whose
  callback answers 401 on an error and otherwise stores \<open>decoded.user\<close> in the request
  and calls \<open>next\<close>; without a token the error view is rendered with 401.
  \<open>jwt.verify\<close> belongs to the token library and is a parameter.
\<close>

definition verify_token ::
  "(string \<Rightarrow> string \<Rightarrow> js_error + jwt_payload) \<Rightarrow> string \<Rightarrow> request \<Rightarrow> string option
     \<Rightarrow> gate_result" where
  "verify_token jwt_verify SECRET_KEY req token =
     (case token of
        None \<Rightarrow>
          \<lparr>gate_response = Some (respond 401 (Render ''error/error'' (Errors [login_required]))),
           nexts = [], gate_raised = None\<rparr>
      | Some t \<Rightarrow>
          if t = [] then
            \<lparr>gate_response =
               Some (respond 401 (Render ''error/error'' (Errors [login_required]))),
             nexts = [], gate_raised = None\<rparr>
          else
            (case jwt_verify t SECRET_KEY of
               Inl err \<Rightarrow>
                 \<lparr>gate_response = Some (respond 401 (Json (Text ''token_not_valid''))),
                  nexts = [], gate_raised = None\<rparr>
             | Inr decoded \<Rightarrow>
                 \<lparr>gate_response = None,
                  nexts = [req\<lparr>req_user := payload_user decoded\<rparr>],
                  gate_raised = None\<rparr>))"

text \<open>Calling a property that is not a function raises a \<open>TypeError\<close>.\<close>

definition not_a_function :: "string \<Rightarrow> js_error" where
  "not_a_function callee =
     \<lparr>err_name = ''TypeError'', err_kind = None, err_code = None,
      err_errors = [], err_message = callee @ '' is not a function''\<rparr>"

text \<open>
  \<open>checkJWT\<close>. A cookie that is a text goes through the two stages above. A cookie
  that the cookie parser turned into an object, an array, a number or \<open>true\<close> is truthy
  and has no \<open>toLowerCase\<close>, so line 132 raises before anything is sent.
\<close>

definition checkJWT ::
  "(string \<Rightarrow> string \<Rightarrow> js_error + jwt_payload) \<Rightarrow> string \<Rightarrow> request \<Rightarrow> gate_result" where
  "checkJWT jwt_verify SECRET_KEY req =
     (case authToken req of
        None \<Rightarrow> verify_token jwt_verify SECRET_KEY req (strip_bearer None)
      | Some (TextCookie t) \<Rightarrow> verify_token jwt_verify SECRET_KEY req (strip_bearer (Some t))
      | Some (JsonCookie j) \<Rightarrow>
          \<lparr>gate_response = None, nexts = [],
           gate_raised = Some (not_a_function ''token.toLowerCase'')\<rparr>)"

text \<open>
  A rejected request: a response with status 401, no call of \<open>next\<close> and no error.
\<close>

definition rejected_401 :: "gate_result \<Rightarrow> bool" where
  "rejected_401 r =
     ((case gate_response r of None \<Rightarrow> False | Some resp \<Rightarrow> status resp = 401)
      \<and> nexts r = [] \<and> gate_raised r = None)"

text \<open>
  What the client and the downstream handler see of the gate: the response, and the
  claim attached at each call of \<open>next\<close>.
\<close>

definition gate_outcome :: "gate_result \<Rightarrow> response option \<times> user_doc option list" where
  "gate_outcome r = (gate_response r, map req_user (nexts r))"

section \<open>The store and the schemas\<close>

record catway_doc =
  catway_id :: object_id
  catwayNumber :: int
  catway_type :: string
  catwayState :: string
  catway_boatName :: string

record reservation_doc =
  resv_id :: object_id
  resv_catwayNumber :: int
  clientName :: string
  resv_boatName :: string
  checkIn :: int
  checkOut :: int

text \<open>
  The database: one collection for each model, in insertion order. Dates are
  milliseconds since the epoch, which is how JavaScript compares \<open>Date\<close> values.
\<close>

record store =
  users :: "user_doc list"
  catways :: "catway_doc list"
  reservations :: "reservation_doc list"

text \<open>
  Identifiers are cast before a query runs: the database driver takes 24 hexadecimal
  digits, and anything else fails the cast with \<open>error.kind = ObjectId\<close>.
\<close>

definition is_hex_digit :: "char \<Rightarrow> bool" where
  "is_hex_digit c =
     (let n = (of_char c :: nat)
      in (48 \<le> n \<and> n \<le> 57) \<or> (65 \<le> n \<and> n \<le> 70) \<or> (97 \<le> n \<and> n \<le> 102))"

definition valid_object_id :: "string \<Rightarrow> bool" where
  "valid_object_id s = (length s = 24 \<and> list_all is_hex_digit s)"

definition hex_digit_value :: "char \<Rightarrow> nat" where
  "hex_digit_value c =
     (let n = (of_char c :: nat)
      in if n \<le> 57 then n - 48 else if n \<le> 70 then n - 55 else n - 87)"

text \<open>
  The cast reads the digits as a number, so that upper-case and lower-case spellings of
  the same identifier give the same \<open>ObjectId\<close>.
\<close>

definition cast_object_id :: "string \<Rightarrow> object_id option" where
  "cast_object_id s =
     (if valid_object_id s then Some (foldl (\<lambda>n c. 16 * n + int (hex_digit_value c)) 0 s)
      else None)"

definition cast_error :: "string \<Rightarrow> js_error" where
  "cast_error v =
     \<lparr>err_name = ''CastError'', err_kind = Some ''ObjectId'', err_code = None,
      err_errors = [], err_message = ''Cast to ObjectId failed for value '' @ v\<rparr>"

definition validation_error :: "string list \<Rightarrow> js_error" where
  "validation_error msgs =
     \<lparr>err_name = ''ValidationError'', err_kind = None, err_code = None,
      err_errors = msgs, err_message = ''Validation failed''\<rparr>"

definition duplicate_key_error :: "string \<Rightarrow> js_error" where
  "duplicate_key_error field =
     \<lparr>err_name = ''MongoServerError'', err_kind = None, err_code = Some 11000,
      err_errors = [], err_message = ''E11000 duplicate key error: '' @ field\<rparr>"

text \<open>Reading a property of \<open>null\<close> or \<open>undefined\<close> raises a \<open>TypeError\<close>.\<close>

definition type_error :: "string \<Rightarrow> js_error" where
  "type_error prop =
     \<lparr>err_name = ''TypeError'', err_kind = None, err_code = None,
      err_errors = [], err_message = ''Cannot read properties of null or undefined: '' @ prop\<rparr>"

subsection \<open>Schema validators\<close>

text \<open>
  The white space that \<open>trim\<close> removes, among the code units below 256: tab, line
  feed, vertical tab, form feed, carriage return, space and the no-break space.
\<close>

definition is_space :: "char \<Rightarrow> bool" where
  "is_space c = (let n = (of_char c :: nat) in (9 \<le> n \<and> n \<le> 13) \<or> n = 32 \<or> n = 160)"

definition trim :: "string \<Rightarrow> string" where
  "trim s = rev (dropWhile is_space (rev (dropWhile is_space s)))"

definition is_letter :: "char \<Rightarrow> bool" where
  "is_letter c =
     (let n = (of_char c :: nat) in (65 \<le> n \<and> n \<le> 90) \<or> (97 \<le> n \<and> n \<le> 122))"

text \<open>
  The validators of one path run in order and the first failure is the path's error;
  each check is a condition that must hold, with the message reported otherwise. An
  absent value fails \<open>required\<close> and skips the other validators.
\<close>

fun first_failure :: "(bool \<times> string) list \<Rightarrow> string list" where
  "first_failure [] = []"
| "first_failure ((ok, msg) # cs) = (if ok then first_failure cs else [msg])"

definition required_msg :: "string \<Rightarrow> string" where
  "required_msg path = ''Path `'' @ path @ ''` is required.''"

definition check_string ::
  "string \<Rightarrow> string option \<Rightarrow> (string \<Rightarrow> (bool \<times> string) list) \<Rightarrow> string list" where
  "check_string req_message v validators =
     (case v of
        None \<Rightarrow> [req_message]
      | Some raw \<Rightarrow>
          (let s = trim raw in first_failure ((s \<noteq> [], req_message) # validators s)))"

text \<open>\<open>catwaySchema\<close>: the messages of the paths that fail, in schema order.\<close>

definition validate_catway :: "body \<Rightarrow> string list" where
  "validate_catway b =
     (case body_catwayNumber b of None \<Rightarrow> [required_msg ''catwayNumber''] | Some n \<Rightarrow> [])
     @ check_string (required_msg ''type'') (body_type b)
         (\<lambda>s. [(s = ''long'' \<or> s = ''short'',
                ''`'' @ s @ ''` is not a valid enum value for path `type`.'')])
     @ check_string (required_msg ''catwayState'') (body_catwayState b)
         (\<lambda>s. [(3 \<le> length s,
                ''L'' @ [CHR 0x27] @ e_acute @ ''tat du catway doit comporter au moins 3 caract''
                  @ e_grave @ ''res''),
               (length s \<le> 100,
                ''L'' @ [CHR 0x27] @ e_acute @ ''tat du Catway ne peut pas d'' @ e_acute
                  @ ''passer 100 caract'' @ e_grave @ ''res'')])
     @ check_string (required_msg ''boatName'') (body_boatName b)
         (\<lambda>s. [(2 \<le> length s,
                ''Le nom du bateau doit comporter au moins 2 caract'' @ e_grave @ ''res''),
               (length s \<le> 50,
                ''Le nom du bateau ne peut pas d'' @ e_acute @ ''passer 50 caract'' @ e_grave
                  @ ''res''),
               (list_ex is_letter s,
                s @ '' n'' @ [CHR 0x27] @ ''est pas valide ! Le nom du bateau doit contenir ''
                  @ ''au moins une lettre.'')])"

text \<open>
  \<open>reservationSchema\<close>. The \<open>checkIn\<close> validator is \<open>v >= new Date()\<close>, with \<open>now\<close>
  the clock at validation; the \<open>checkOut\<close> validator is \<open>v > this.checkIn\<close>, which is
  false when \<open>checkIn\<close> is absent.
\<close>

definition validate_reservation ::
  "int \<Rightarrow> int option \<Rightarrow> string option \<Rightarrow> string option \<Rightarrow> int option \<Rightarrow> int option
     \<Rightarrow> string list" where
  "validate_reservation now number client boat check_in check_out =
     (case number of
        None \<Rightarrow> [''Le num'' @ e_acute @ ''ro de catway est requis'']
      | Some n \<Rightarrow> [])
     @ check_string ''Le nom du client est obligatoire'' client
         (\<lambda>s. [(3 \<le> length s,
                ''Le nom du client doit comporter au moins 3 caract'' @ e_grave @ ''res''),
               (length s \<le> 100,
                ''Le nom du client ne peut pas d'' @ e_acute @ ''passer 100 caract'' @ e_grave
                  @ ''res'')])
     @ check_string ''Le nom du bateau est obligatoire'' boat (\<lambda>s. [])
     @ (case check_in of
          None \<Rightarrow> [''Date de check-in est obligatoire'']
        | Some v \<Rightarrow>
            first_failure
              [(now \<le> v,
                ''La date de check-in ne peut pas '' @ e_circ @ ''tre dans le pass'' @ e_acute
                  @ ''.'')])
     @ (case check_out of
          None \<Rightarrow> [''Date de check-out est obligatoire'']
        | Some v \<Rightarrow>
            first_failure
              [((case check_in of None \<Rightarrow> False | Some ci \<Rightarrow> ci < v),
                ''La date de check-out doit '' @ e_circ @ ''tre post'' @ e_acute
                  @ ''rieure '' @ a_grave @ '' la date de check-in.'')])"

subsection \<open>Services\<close>

text \<open>
  \<open>save\<close> on a new document validates it and then inserts it; the identifier \<open>oid\<close>
  is the one the driver generates. \<open>catwayNumber\<close> is declared \<open>unique\<close>, so the
  database refuses a second document with the same number with error code 11000.
\<close>

definition stored_string :: "string option \<Rightarrow> string" where
  "stored_string v = (case v of None \<Rightarrow> [] | Some raw \<Rightarrow> trim raw)"

definition addCatway :: "object_id \<Rightarrow> store \<Rightarrow> body \<Rightarrow> js_error + (catway_doc \<times> store)" where
  "addCatway oid st catwayData =
     (if validate_catway catwayData \<noteq> [] then
        Inl (validation_error (validate_catway catwayData))
      else
        (case body_catwayNumber catwayData of
           None \<Rightarrow> Inl (validation_error (validate_catway catwayData))
         | Some n \<Rightarrow>
             if n \<in> set (map catwayNumber (catways st)) then
               Inl (duplicate_key_error ''catwayNumber'')
             else
               (let newCatway =
                  \<lparr>catway_id = oid, catwayNumber = n,
                   catway_type = stored_string (body_type catwayData),
                   catwayState = stored_string (body_catwayState catwayData),
                   catway_boatName = stored_string (body_boatName catwayData)\<rparr>
                in Inr (newCatway, st\<lparr>catways := catways st @ [newCatway]\<rparr>))))"

text \<open>
  \<open>findById\<close>: the identifier is cast first; a text that is not an identifier fails
  with the cast error.
\<close>

definition getCatwayById :: "store \<Rightarrow> string \<Rightarrow> js_error + catway_doc option" where
  "getCatwayById st id' =
     (case cast_object_id id' of
        None \<Rightarrow> Inl (cast_error id')
      | Some oid \<Rightarrow> Inr (find (\<lambda>c. catway_id c = oid) (catways st)))"

fun remove_first :: "('a \<Rightarrow> bool) \<Rightarrow> 'a list \<Rightarrow> 'a list" where
  "remove_first P [] = []"
| "remove_first P (x # xs) = (if P x then xs else x # remove_first P xs)"

text \<open>\<open>findByIdAndDelete\<close>: the deleted document, or \<open>null\<close> when none has the identifier.\<close>

definition deleteCatway :: "store \<Rightarrow> string \<Rightarrow> js_error + (catway_doc option \<times> store)" where
  "deleteCatway st id' =
     (case cast_object_id id' of
        None \<Rightarrow> Inl (cast_error id')
      | Some oid \<Rightarrow>
          Inr (find (\<lambda>c. catway_id c = oid) (catways st),
               st\<lparr>catways := remove_first (\<lambda>c. catway_id c = oid) (catways st)\<rparr>))"

definition deleteReservation ::
  "store \<Rightarrow> string \<Rightarrow> js_error + (reservation_doc option \<times> store)" where
  "deleteReservation st id' =
     (case cast_object_id id' of
        None \<Rightarrow> Inl (cast_error id')
      | Some oid \<Rightarrow>
          Inr (find (\<lambda>r. resv_id r = oid) (reservations st),
               st\<lparr>reservations := remove_first (\<lambda>r. resv_id r = oid) (reservations st)\<rparr>))"

definition deleteUser :: "store \<Rightarrow> string \<Rightarrow> js_error + (user_doc option \<times> store)" where
  "deleteUser st id' =
     (case cast_object_id id' of
        None \<Rightarrow> Inl (cast_error id')
      | Some oid \<Rightarrow>
          Inr (find (\<lambda>u. user_id u = oid) (users st),
               st\<lparr>users := remove_first (\<lambda>u. user_id u = oid) (users st)\<rparr>))"

record reservation_data =
  data_catwayNumber :: "int option"
  data_clientName :: "string option"
  data_boatName :: "string option"
  data_checkIn :: "int option"
  data_checkOut :: "int option"

definition reservation_messages :: "int \<Rightarrow> reservation_data \<Rightarrow> string list" where
  "reservation_messages now d =
     validate_reservation now (data_catwayNumber d) (data_clientName d) (data_boatName d)
       (data_checkIn d) (data_checkOut d)"

text \<open>
  The fields of a reservation other than its dates pass the schema: a catway number,
  a client name of 3 to 100 characters and a boat name, both after trimming.
\<close>

definition other_fields_valid :: "reservation_data \<Rightarrow> bool" where
  "other_fields_valid d =
     (case (data_catwayNumber d, data_clientName d, data_boatName d) of
        (Some n, Some client, Some boat) \<Rightarrow>
          3 \<le> length (trim client) \<and> length (trim client) \<le> 100 \<and> trim boat \<noteq> []
      | _ \<Rightarrow> False)"

definition creatReservation ::
  "object_id \<Rightarrow> int \<Rightarrow> store \<Rightarrow> reservation_data \<Rightarrow> js_error + (reservation_doc \<times> store)" where
  "creatReservation oid now st reservationData =
     (if reservation_messages now reservationData \<noteq> [] then
        Inl (validation_error (reservation_messages now reservationData))
      else
        (case (data_catwayNumber reservationData, data_checkIn reservationData,
               data_checkOut reservationData) of
           (Some n, Some ci, Some co) \<Rightarrow>
             (let newReservation =
                \<lparr>resv_id = oid, resv_catwayNumber = n,
                 clientName = stored_string (data_clientName reservationData),
                 resv_boatName = stored_string (data_boatName reservationData),
                 checkIn = ci, checkOut = co\<rparr>
              in Inr (newReservation,
                      st\<lparr>reservations := reservations st @ [newReservation]\<rparr>))
         | _ \<Rightarrow> Inl (validation_error (reservation_messages now reservationData))))"

text \<open>
  \<open>User.findOne({ email: email }, '-__v -createdAt -updatedAt')\<close>. The schema declares
  \<open>trim\<close> on \<open>email\<close>, and the query filter is cast by the schema, so the email asked
  for is trimmed first; the result is the first user with exactly the trimmed email,
  without the three projected fields.
\<close>

definition findOne :: "store \<Rightarrow> string option \<Rightarrow> user_doc option" where
  "findOne st email =
     map_option
       (\<lambda>u. u\<lparr>user_createdAt := None, user_updatedAt := None, user_version := None\<rparr>)
       (find (\<lambda>u. Some (user_email u) = map_option trim email) (users st))"

section \<open>The controllers\<close>

subsection \<open>The catch blocks\<close>

datatype operation =
    Users_getById | Users_add | Users_update | Users_edit | Users_delete
  | Users_authenticate | Users_getUsersList
  | Catways_getAll | Catways_getById | Catways_add | Catways_renderAddforum
  | Catways_update | Catways_edit | Catways_delete
  | Reservations_getAllOfCatway | Reservations_getAll | Reservations_getbyId
  | Reservations_add | Reservations_renderAddForm | Reservations_delete

definition internal_server_error :: "js_error \<Rightarrow> response" where
  "internal_server_error error = respond 500 (Json (InternalServerError error))"

definition validation_failed :: "js_error \<Rightarrow> response" where
  "validation_failed error = respond 400 (Render ''error/error'' (Errors (err_errors error)))"

definition invalid_identifier :: "nat \<Rightarrow> response" where
  "invalid_identifier s =
     respond s (Render ''error/error'' (Errors [''Entrez un identifiant valide'']))"

definition catway_number_exists :: string where
  "catway_number_exists =
     ''Ce num'' @ e_acute @ ''ro de catway existe d'' @ e_acute @ ''j'' @ a_grave"

definition email_exists :: string where
  "email_exists =
     ''Cet email existe d'' @ e_acute @ ''j'' @ a_grave @ '' dans notre base de donn''
       @ e_acute @ ''es''"

text \<open>The \<open>catch\<close> block of each controller function, as written in the source.\<close>

fun catch_block :: "operation \<Rightarrow> js_error \<Rightarrow> response" where
  "catch_block Users_getById error = internal_server_error error"
| "catch_block Users_add error =
     (if err_name error = ''ValidationError'' then validation_failed error
      else if err_code error = Some 11000 then
        respond 400 (Render ''error/error'' (Errors [email_exists]))
      else internal_server_error error)"
| "catch_block Users_update error =
     (if err_name error = ''ValidationError'' then validation_failed error
      else respond 501 (Json (ErrorObject error)))"
| "catch_block Users_edit error =
     (if err_kind error = Some ''ObjectId'' then invalid_identifier 404
      else respond 501 (Json (ErrorObject error)))"
| "catch_block Users_delete error =
     (if err_kind error = Some ''ObjectId'' then respond 400 (Json (ErrorKind (err_kind error)))
      else respond 501 (Json (ErrorObject error)))"
| "catch_block Users_authenticate error = respond 501 (Json (ErrorObject error))"
| "catch_block Users_getUsersList error = respond 501 (Json (ErrorObject error))"
| "catch_block Catways_getAll error = internal_server_error error"
| "catch_block Catways_getById error =
     (if err_kind error = Some ''ObjectId'' then invalid_identifier 404
      else internal_server_error error)"
| "catch_block Catways_add error =
     (if err_name error = ''ValidationError'' then validation_failed error
      else if err_code error = Some 11000 then
        respond 400 (Render ''error/error'' (Errors [catway_number_exists]))
      else internal_server_error error)"
| "catch_block Catways_renderAddforum error = internal_server_error error"
| "catch_block Catways_update error =
     (if err_name error = ''ValidationError'' then validation_failed error
      else internal_server_error error)"
| "catch_block Catways_edit error =
     (if err_kind error = Some ''ObjectId'' then invalid_identifier 400
      else internal_server_error error)"
| "catch_block Catways_delete error =
     (if err_kind error = Some ''ObjectId'' then respond 400 (Json (ErrorKind (err_kind error)))
      else internal_server_error error)"
| "catch_block Reservations_getAllOfCatway error = internal_server_error error"
| "catch_block Reservations_getAll error = internal_server_error error"
| "catch_block Reservations_getbyId error =
     (if err_kind error = Some ''ObjectId'' then invalid_identifier 404
      else internal_server_error error)"
| "catch_block Reservations_add error =
     (if err_name error = ''ValidationError'' then validation_failed error
      else internal_server_error error)"
| "catch_block Reservations_renderAddForm error = internal_server_error error"
| "catch_block Reservations_delete error =
     (if err_kind error = Some ''ObjectId'' then respond 400 (Json (ErrorKind (err_kind error)))
      else internal_server_error error)"

text \<open>
  An unexpected failure: an error that is neither a validation failure, nor a duplicate
  key, nor a malformed identifier.
\<close>

definition unexpected :: "js_error \<Rightarrow> bool" where
  "unexpected error =
     (err_name error \<noteq> ''ValidationError'' \<and> err_code error \<noteq> Some 11000
      \<and> err_kind error \<noteq> Some ''ObjectId'')"

subsection \<open>Handlers\<close>

text \<open>
  What a handler leaves behind: the store, \<open>req.session.message\<close> and the response.
\<close>

record result =
  new_store :: store
  new_session :: "string option"
  sent :: response

definition success_suffix :: string where
  "success_suffix = '' avec succ'' @ e_grave @ ''s''"

definition a_ete :: string where
  "a_ete = '' a '' @ e_acute @ ''t'' @ e_acute @ '' ''"

definition catways_add :: "object_id \<Rightarrow> store \<Rightarrow> request \<Rightarrow> result" where
  "catways_add oid st req =
     (case addCatway oid st (req_body req) of
        Inr (newCatway, st') \<Rightarrow>
          \<lparr>new_store = st', new_session = session_message req,
           sent = respond 302 (Redirect (''/catways?message=Catway ''
                    @ catway_boatName newCatway @ a_ete @ ''cr'' @ e_acute @ e_acute
                    @ success_suffix))\<rparr>
      | Inl error \<Rightarrow>
          \<lparr>new_store = st, new_session = session_message req,
           sent = catch_block Catways_add error\<rparr>)"

text \<open>
  \<open>delete\<close> of the catways controller: \<open>catway.boatName\<close> raises when the service
  returned \<open>null\<close>, and \<open>req.headers.referer.includes\<close> raises when the request has no
  \<open>referer\<close> header; both land in the \<open>catch\<close> block, after the service has run.
\<close>

definition catways_delete :: "store \<Rightarrow> request \<Rightarrow> result" where
  "catways_delete st req =
     (case deleteCatway st (param_id req) of
        Inl error \<Rightarrow>
          \<lparr>new_store = st, new_session = session_message req,
           sent = catch_block Catways_delete error\<rparr>
      | Inr (catway, st') \<Rightarrow>
          (case catway of
             None \<Rightarrow>
               \<lparr>new_store = st', new_session = session_message req,
                sent = catch_block Catways_delete (type_error ''boatName'')\<rparr>
           | Some c \<Rightarrow>
               (let message = ''Catway '' @ catway_boatName c @ a_ete @ ''supprim'' @ e_acute
                                @ success_suffix
                in (case referer req of
                      None \<Rightarrow>
                        \<lparr>new_store = st', new_session = Some message,
                         sent = catch_block Catways_delete (type_error ''includes'')\<rparr>
                    | Some r \<Rightarrow>
                        if includes_str r ''dashboard'' then
                          \<lparr>new_store = st', new_session = Some message,
                           sent = respond 200 (Json (Message message))\<rparr>
                        else
                          \<lparr>new_store = st', new_session = Some message,
                           sent = respond 302 (Redirect (''/catways?message='' @ message))\<rparr>))))"

text \<open>
  \<open>delete\<close> of the reservations controller; \<open>show_date\<close> is the text JavaScript
  gives a \<open>Date\<close> inside a template string.
\<close>

definition reservations_delete :: "(int \<Rightarrow> string) \<Rightarrow> store \<Rightarrow> request \<Rightarrow> result" where
  "reservations_delete show_date st req =
     (case deleteReservation st (param_idReservation req) of
        Inl error \<Rightarrow>
          \<lparr>new_store = st, new_session = session_message req,
           sent = catch_block Reservations_delete error\<rparr>
      | Inr (reservation, st') \<Rightarrow>
          (case reservation of
             None \<Rightarrow>
               \<lparr>new_store = st', new_session = session_message req,
                sent = catch_block Reservations_delete (type_error ''boatName'')\<rparr>
           | Some r \<Rightarrow>
               (let message = ''La r'' @ e_acute @ ''servation du bateau '' @ resv_boatName r
                                @ '', le '' @ show_date (checkIn r) @ a_ete @ ''supprim''
                                @ e_acute @ ''e'' @ success_suffix
                in (case referer req of
                      None \<Rightarrow>
                        \<lparr>new_store = st', new_session = Some message,
                         sent = catch_block Reservations_delete (type_error ''includes'')\<rparr>
                    | Some h \<Rightarrow>
                        if includes_str h ''dashboard'' then
                          \<lparr>new_store = st', new_session = Some message,
                           sent = respond 200 (Json (Message message))\<rparr>
                        else
                          \<lparr>new_store = st', new_session = Some message,
                           sent = respond 302 (Redirect (''/dashboard?message='' @ message))\<rparr>))))"

definition users_delete :: "store \<Rightarrow> request \<Rightarrow> result" where
  "users_delete st req =
     (case deleteUser st (param_id req) of
        Inl error \<Rightarrow>
          \<lparr>new_store = st, new_session = session_message req,
           sent = catch_block Users_delete error\<rparr>
      | Inr (user, st') \<Rightarrow>
          (case user of
             None \<Rightarrow>
               \<lparr>new_store = st', new_session = session_message req,
                sent = catch_block Users_delete (type_error ''name'')\<rparr>
           | Some u \<Rightarrow>
               \<lparr>new_store = st', new_session = session_message req,
                sent = respond 200 (Render ''dashboard/dashboard''
                         (Message (''L'' @ [CHR 0x27] @ ''utilisateur '' @ user_name u @ a_ete
                                   @ ''supprim'' @ e_acute @ success_suffix)))\<rparr>))"

text \<open>
  \<open>add\<close> of the reservations controller: the catway is looked up by identifier, and the
  reservation takes its number and boat name from it.
\<close>

definition reservations_add :: "object_id \<Rightarrow> int \<Rightarrow> store \<Rightarrow> request \<Rightarrow> result" where
  "reservations_add oid now st req =
     (case getCatwayById st (param_id req) of
        Inl error \<Rightarrow>
          \<lparr>new_store = st, new_session = session_message req,
           sent = catch_block Reservations_add error\<rparr>
      | Inr None \<Rightarrow>
          \<lparr>new_store = st, new_session = session_message req,
           sent = respond 404 (Json (Message (''Catway non trouv'' @ e_acute)))\<rparr>
      | Inr (Some catway) \<Rightarrow>
          (let reservationData =
             \<lparr>data_catwayNumber = Some (catwayNumber catway),
              data_clientName = body_clientName (req_body req),
              data_boatName = Some (catway_boatName catway),
              data_checkIn = body_checkIn (req_body req),
              data_checkOut = body_checkOut (req_body req)\<rparr>
           in (case creatReservation oid now st reservationData of
                 Inl error \<Rightarrow>
                   \<lparr>new_store = st, new_session = session_message req,
                    sent = catch_block Reservations_add error\<rparr>
               | Inr (reservation, st') \<Rightarrow>
                   \<lparr>new_store = st', new_session = session_message req,
                    sent = respond 200 (Render ''dashboard/dashboard''
                             (Message (''La r'' @ e_acute @ ''servation du bateau ''
                                       @ resv_boatName reservation @ a_ete @ ''cr'' @ e_acute
                                       @ e_acute @ ''e'' @ success_suffix)))\<rparr>)))"

text \<open>
  \<open>update\<close> of the users controller. The two service calls, \<open>findUserById\<close> and
  \<open>user.save\<close>, are parameters, so that a failing database can be supplied. A field of
  the body overwrites the user's when it is truthy, that is, present and not empty.
\<close>

definition overwrite :: "string option \<Rightarrow> string \<Rightarrow> string" where
  "overwrite new old = (case new of None \<Rightarrow> old | Some v \<Rightarrow> if v = [] then old else v)"

definition users_update ::
  "(string \<Rightarrow> js_error + user_doc option) \<Rightarrow> (user_doc \<Rightarrow> js_error + user_doc) \<Rightarrow> request
     \<Rightarrow> response" where
  "users_update findUserById save req =
     (case findUserById (param_id req) of
        Inl error \<Rightarrow> catch_block Users_update error
      | Inr None \<Rightarrow> respond 404 (Json (Text (''Utilisateur non trouv'' @ e_acute)))
      | Inr (Some user) \<Rightarrow>
          (let updated =
             user\<lparr>user_name := overwrite (body_name (req_body req)) (user_name user),
                  user_email := overwrite (body_email (req_body req)) (user_email user),
                  user_password :=
                    (case body_password (req_body req) of
                       None \<Rightarrow> user_password user
                     | Some v \<Rightarrow> if v = [] then user_password user else Some v)\<rparr>
           in (case save updated of
                 Inl error \<Rightarrow> catch_block Users_update error
               | Inr saved \<Rightarrow>
                   respond 200 (Render ''users/edit_user''
                     (UserMessage saved
                        (''L'' @ [CHR 0x27] @ ''utilisateur'' @ a_ete @ ''mis '' @ a_grave
                         @ '' jour'' @ success_suffix))))))"

subsection \<open>Authentication\<close>

text \<open>
  A request either gets a response, or an exception leaves the handler and nothing is
  sent.
\<close>

datatype outcome = Responded response | Unhandled js_error

definition bad_credentials :: string where
  "bad_credentials =
     ''Identifiants erron'' @ e_acute @ ''s, veuillez r'' @ e_acute @ ''essayer.''"

definition wrong_password :: string where
  "wrong_password =
     ''mot de passe erron'' @ e_acute @ '', veuillez r'' @ e_acute @ ''essayer.''"

text \<open>
  \<open>authenticate\<close>, given the outcome of the lookup. \<open>bcrypt.compare\<close> hands
  \<open>(err, response)\<close> to its callback and \<open>jwt.sign\<close> builds the token; both belong to
  libraries and are parameters. The callback runs after the \<open>try\<close> block has been left,
  so the error it throws is not caught by the \<open>catch\<close> block of \<open>authenticate\<close>.
\<close>

definition authenticate_with ::
  "(string option \<Rightarrow> string option \<Rightarrow> string option \<times> bool)
     \<Rightarrow> (jwt_payload \<Rightarrow> string \<Rightarrow> nat \<Rightarrow> string) \<Rightarrow> string
     \<Rightarrow> js_error + user_doc option \<Rightarrow> request \<Rightarrow> outcome" where
  "authenticate_with bcrypt_compare jwt_sign SECRET_KEY found req =
     (case found of
        Inl error \<Rightarrow> Responded (catch_block Users_authenticate error)
      | Inr None \<Rightarrow> Responded (respond 200 (Render ''home/home'' (Message bad_credentials)))
      | Inr (Some user) \<Rightarrow>
          (case bcrypt_compare (body_password (req_body req)) (user_password user) of
             (err, response) \<Rightarrow>
               if response then
                 (let expireIn = 24 * 60 * 60;
                      token = jwt_sign \<lparr>payload_user = Some (user\<lparr>user_password := None\<rparr>)\<rparr>
                                SECRET_KEY expireIn
                  in Responded
                       \<lparr>status = 200, reply = Render ''dashboard/dashboard'' NoData,
                        cookies = [\<lparr>cookie_name = ''authToken'', cookie_value = token,
                                    cookie_httpOnly = True,
                                    cookie_maxAge = expireIn * 1000\<rparr>]\<rparr>)
               else
                 (case err of
                    Some e \<Rightarrow>
                      Unhandled \<lparr>err_name = ''Error'', err_kind = None, err_code = None,
                                 err_errors = [], err_message = e\<rparr>
                  | None \<Rightarrow>
                      Responded (respond 200 (Render ''home/home'' (Message wrong_password))))))"

definition authenticate ::
  "(string option \<Rightarrow> string option \<Rightarrow> string option \<times> bool)
     \<Rightarrow> (jwt_payload \<Rightarrow> string \<Rightarrow> nat \<Rightarrow> string) \<Rightarrow> string \<Rightarrow> store \<Rightarrow> request \<Rightarrow> outcome" where
  "authenticate bcrypt_compare jwt_sign SECRET_KEY st req =
     authenticate_with bcrypt_compare jwt_sign SECRET_KEY
       (Inr (findOne st (body_email (req_body req)))) req"

section \<open>Sample data\<close>

definition sample_user :: user_doc where
  "sample_user =
     \<lparr>user_id = 0x64B0C0FFEE0000000000A001, user_name = ''Test'',
      user_email = ''test@example.com'', user_password = Some ''hash:test123'',
      user_createdAt = Some 1700000000000, user_updatedAt = Some 1700000000000,
      user_version = Some 0\<rparr>"

definition sample_catway :: catway_doc where
  "sample_catway =
     \<lparr>catway_id = 0x64B0C0FFEE0000000000C001, catwayNumber = 7, catway_type = ''long'',
      catwayState = ''bon'', catway_boatName = ''Orion''\<rparr>"

definition sample_reservation :: reservation_doc where
  "sample_reservation =
     \<lparr>resv_id = 0x64B0C0FFEE0000000000E001, resv_catwayNumber = 7,
      clientName = ''John Doe'', resv_boatName = ''Orion'',
      checkIn = 1800000000000, checkOut = 1800086400000\<rparr>"

definition sample_store :: store where
  "sample_store =
     \<lparr>users = [sample_user], catways = [sample_catway],
      reservations = [sample_reservation]\<rparr>"

definition empty_body :: body where
  "empty_body =
     \<lparr>body_name = None, body_email = None, body_password = None, body_catwayNumber = None,
      body_type = None, body_catwayState = None, body_boatName = None,
      body_clientName = None, body_checkIn = None, body_checkOut = None\<rparr>"

definition empty_request :: request where
  "empty_request =
     \<lparr>authToken = None, req_user = None, param_id = [], param_idReservation = [],
      referer = None, session_message = None, req_body = empty_body\<rparr>"

definition login :: "string \<Rightarrow> string option \<Rightarrow> request" where
  "login email password =
     empty_request\<lparr>req_body := empty_body\<lparr>body_email := Some email,
                                              body_password := password\<rparr>\<rparr>"

text \<open>
  Stand-ins for the libraries: a comparison that reports an error when an argument is
  not a string, as the hashing library does, and otherwise matches a hash of the form
  \<open>hash:password\<close>; a signer and a verifier that know one token.
\<close>

definition sample_compare :: "string option \<Rightarrow> string option \<Rightarrow> string option \<times> bool" where
  "sample_compare s hash =
     (case (s, hash) of
        (Some pw, Some h) \<Rightarrow> (None, h = ''hash:'' @ pw)
      | (None, _) \<Rightarrow> (Some ''Illegal arguments: undefined, string'', False)
      | (_, None) \<Rightarrow> (Some ''Illegal arguments: string, undefined'', False))"

definition sample_sign :: "jwt_payload \<Rightarrow> string \<Rightarrow> nat \<Rightarrow> string" where
  "sample_sign payload key ttl =
     (case payload_user payload of None \<Rightarrow> ''token'' | Some u \<Rightarrow> ''token-'' @ user_email u)"

definition sample_claim :: user_doc where
  "sample_claim =
     sample_user\<lparr>user_password := None, user_createdAt := None, user_updatedAt := None,
                 user_version := None\<rparr>"

definition sample_verify :: "string \<Rightarrow> string \<Rightarrow> js_error + jwt_payload" where
  "sample_verify token key =
     (if token = ''token-test@example.com'' \<and> key = ''secret'' then
        Inr \<lparr>payload_user = Some sample_claim\<rparr>
      else
        Inl \<lparr>err_name = ''JsonWebTokenError'', err_kind = None, err_code = None,
             err_errors = [], err_message = ''invalid token''\<rparr>)"

definition connection_lost :: js_error where
  "connection_lost =
     \<lparr>err_name = ''MongoNetworkError'', err_kind = None, err_code = None,
      err_errors = [], err_message = ''connection lost''\<rparr>"

definition sample_now :: int where
  "sample_now = 1790000000000"

definition sample_reservation_data :: reservation_data where
  "sample_reservation_data =
     \<lparr>data_catwayNumber = Some 7, data_clientName = Some ''John Doe'',
      data_boatName = Some ''Orion'', data_checkIn = Some 1800000000000,
      data_checkOut = Some 1800086400000\<rparr>"

definition sample_catway_body :: body where
  "sample_catway_body =
     empty_body\<lparr>body_catwayNumber := Some 12, body_type := Some ''short'',
                body_catwayState := Some ''libre'', body_boatName := Some ''Vega''\<rparr>"

definition missing_id :: string where
  "missing_id = ''64b0c0ffee0000000000ffff''"

section \<open>Properties of the request gate\<close>

lemma strip_prefixed:
  assumes "toLowerCase p = ''bearer ''"
  shows "strip_bearer (Some (p @ t)) = Some t"
proof -
  have "length (toLowerCase p) = length ''bearer ''"
    using assms by simp
  then have len: "length p = 7"
    by (simp add: toLowerCase_def)
  have "toLowerCase (p @ t) = ''bearer '' @ toLowerCase t"
    using assms by (simp add: toLowerCase_def)
  then have "startsWith (toLowerCase (p @ t)) ''bearer''"
    by (simp add: startsWith_def)
  moreover have "p @ t \<noteq> []" using len by auto
  ultimately show ?thesis
    using len by (simp add: strip_bearer_def)
qed

lemma strip_plain:
  "\<not> startsWith (toLowerCase t) ''bearer'' \<Longrightarrow> strip_bearer (Some t) = Some t"
  by (simp add: strip_bearer_def)

lemma gate_outcome_cookie:
  "gate_outcome (verify_token v k (req\<lparr>authToken := c\<rparr>) tok)
     = gate_outcome (verify_token v k req tok)"
  by (simp add: gate_outcome_def verify_token_def split: option.splits sum.splits)

text \<open>
  For a request without the cookie, or with a cookie that is a text: no cookie, a
  token that is empty once the prefix is stripped, or a token that \<open>jwt.verify\<close>
  refuses, is answered 401 without a call of \<open>next\<close>; a token that verifies gets no
  response from the gate and exactly one call of \<open>next\<close>, with \<open>decoded.user\<close> stored in
  the request.
\<close>

lemma checkJWT_text_cookie:
  "(authToken req = None \<longrightarrow> rejected_401 (checkJWT v k req)) \<and>
   (\<forall>c t. authToken req = Some (TextCookie c) \<and> strip_bearer (Some c) = Some t
          \<and> (t = [] \<or> (\<exists>e. v t k = Inl e))
        \<longrightarrow> rejected_401 (checkJWT v k req)) \<and>
   (\<forall>c t d. authToken req = Some (TextCookie c) \<and> strip_bearer (Some c) = Some t
          \<and> t \<noteq> [] \<and> v t k = Inr d
        \<longrightarrow> checkJWT v k req
              = \<lparr>gate_response = None, nexts = [req\<lparr>req_user := payload_user d\<rparr>],
                 gate_raised = None\<rparr>)"
  by (auto simp: checkJWT_def verify_token_def rejected_401_def respond_def strip_bearer_def
      split: option.splits)

lemma checkJWT_text_cookie_examples:
  "rejected_401 (checkJWT sample_verify ''secret'' empty_request)
   \<and> rejected_401 (checkJWT sample_verify ''secret''
        (empty_request\<lparr>authToken := Some (TextCookie ''expired'')\<rparr>))
   \<and> nexts (checkJWT sample_verify ''secret''
        (empty_request\<lparr>authToken := Some (TextCookie ''token-test@example.com'')\<rparr>))
       = [empty_request\<lparr>authToken := Some (TextCookie ''token-test@example.com''),
                        req_user := Some sample_claim\<rparr>]"
proof -
  let ?bad = "empty_request\<lparr>authToken := Some (TextCookie ''expired'')\<rparr>"
  let ?good = "empty_request\<lparr>authToken := Some (TextCookie ''token-test@example.com'')\<rparr>"
  have a: "authToken empty_request = None"
    by (simp add: empty_request_def)
  have b: "authToken ?bad = Some (TextCookie ''expired'')"
    "strip_bearer (Some ''expired'') = Some ''expired''"
    by code_simp+
  have b': "\<exists>e. sample_verify ''expired'' ''secret'' = Inl e"
    by (simp add: sample_verify_def)
  have c: "authToken ?good = Some (TextCookie ''token-test@example.com'')"
    "strip_bearer (Some ''token-test@example.com'') = Some ''token-test@example.com''"
    by code_simp+
  have c': "sample_verify ''token-test@example.com'' ''secret''
              = Inr \<lparr>payload_user = Some sample_claim\<rparr>"
    by (simp add: sample_verify_def)
  show ?thesis
    using a b b' c c'
      checkJWT_text_cookie [where req = empty_request and v = sample_verify
        and k = "''secret''"]
      checkJWT_text_cookie [where req = ?bad and v = sample_verify and k = "''secret''"]
      checkJWT_text_cookie [where req = ?good and v = sample_verify and k = "''secret''"]
    by simp
qed

text \<open>
  A cookie that the cookie parser turned into a value other than a text gets no
  response and no call of \<open>next\<close>: the gate raises.
\<close>

lemma checkJWT_json_cookie_raises:
  "authToken req = Some (JsonCookie j) \<Longrightarrow>
     gate_response (checkJWT v k req) = None \<and> nexts (checkJWT v k req) = []
     \<and> gate_raised (checkJWT v k req) \<noteq> None"
  by (simp add: checkJWT_def)

text \<open>
  C1: the request with the cookie \<open>authToken=j:{}\<close>, which the cookie parser hands to
  the gate as an object, is a request with a token that is present and malformed. The
  gate neither answers it with 401 nor calls \<open>next\<close>: calling \<open>toLowerCase\<close> on the
  object raises a \<open>TypeError\<close> that leaves the middleware.
\<close>

theorem checkJWT_json_cookie:
  "checkJWT sample_verify ''secret'' (empty_request\<lparr>authToken := Some (JsonCookie JsonObject)\<rparr>)
     = \<lparr>gate_response = None, nexts = [],
        gate_raised = Some (not_a_function ''token.toLowerCase'')\<rparr>
   \<and> \<not> rejected_401 (checkJWT sample_verify ''secret''
          (empty_request\<lparr>authToken := Some (JsonCookie JsonObject)\<rparr>))"
  by (simp add: checkJWT_def rejected_401_def)

text \<open>
  C4: a cookie made of \<open>Bearer\<close> and a space, in any letter-casing, followed by a token
  \<open>t\<close> has the outcome of verifying \<open>t\<close> alone: the same response, the same number of
  calls of \<open>next\<close> and the same claim attached. When \<open>t\<close> does not itself begin with
  \<open>bearer\<close>, this is also the outcome of the gate for the cookie \<open>t\<close>.
\<close>

theorem bearer_prefix_stripped:
  assumes "toLowerCase p = ''bearer ''"
  shows "gate_outcome (checkJWT v k (req\<lparr>authToken := Some (TextCookie (p @ t))\<rparr>))
           = gate_outcome (verify_token v k req (Some t))
         \<and> (\<not> startsWith (toLowerCase t) ''bearer'' \<longrightarrow>
              gate_outcome (checkJWT v k (req\<lparr>authToken := Some (TextCookie (p @ t))\<rparr>))
                = gate_outcome (checkJWT v k (req\<lparr>authToken := Some (TextCookie t)\<rparr>)))"
  using strip_prefixed [OF assms, of t] strip_plain [of t]
  by (simp add: checkJWT_def gate_outcome_cookie)

theorem bearer_prefix_stripped_witness:
  "toLowerCase ''BeArEr '' = ''bearer ''
   \<and> \<not> startsWith (toLowerCase ''token-test@example.com'') ''bearer''
   \<and> gate_outcome (checkJWT sample_verify ''secret''
        (empty_request\<lparr>authToken := Some (TextCookie ''BeArEr token-test@example.com'')\<rparr>))
       = (None, [Some sample_claim])
   \<and> gate_outcome (checkJWT sample_verify ''secret''
        (empty_request\<lparr>authToken := Some (TextCookie ''token-test@example.com'')\<rparr>))
       = (None, [Some sample_claim])"
proof -
  have h: "toLowerCase ''BeArEr '' = ''bearer ''"
    by code_simp
  have n: "\<not> startsWith (toLowerCase ''token-test@example.com'') ''bearer''"
    by code_simp
  have v: "gate_outcome (verify_token sample_verify ''secret'' empty_request
             (Some ''token-test@example.com'')) = (None, [Some sample_claim])"
    by (simp add: gate_outcome_def verify_token_def sample_verify_def)
  show ?thesis
    using h n v
      bearer_prefix_stripped [where p = "''BeArEr ''" and t = "''token-test@example.com''"
        and v = sample_verify and k = "''secret''" and req = empty_request]
    by auto
qed

section \<open>Properties of authentication\<close>

lemma findOne_unknown: "findOne sample_store (Some ''nobody@example.com'') = None"
  by code_simp

lemma findOne_known:
  "findOne sample_store (Some ''test@example.com'')
     = Some (sample_user\<lparr>user_createdAt := None, user_updatedAt := None,
                          user_version := None\<rparr>)"
  by code_simp

lemma messages_differ: "bad_credentials \<noteq> wrong_password"
  by (simp add: bad_credentials_def wrong_password_def)

text \<open>
  The lookup returns a stored user with its identifier, name, email and password hash;
  only the fields named in the projection are left out.
\<close>

lemma findOne_fields:
  "findOne st email = Some user \<Longrightarrow>
     \<exists>stored \<in> set (users st).
       Some (user_email stored) = map_option trim email \<and> user_id user = user_id stored
       \<and> user_name user = user_name stored \<and> user_email user = user_email stored
       \<and> user_password user = user_password stored"
  by (auto simp: findOne_def find_Some_iff)

text \<open>
  C2, as stated, fails: with one stored user, a login with an unknown email and a login
  with the known email and a wrong password get different responses.
\<close>

theorem authenticate_failures_differ:
  "findOne sample_store (body_email (req_body (login ''nobody@example.com'' (Some ''test123''))))
     = None
   \<and> findOne sample_store (body_email (req_body (login ''test@example.com'' (Some ''wrong''))))
       \<noteq> None
   \<and> sample_compare (Some ''wrong'') (user_password sample_user) = (None, False)
   \<and> authenticate sample_compare sample_sign ''secret'' sample_store
         (login ''nobody@example.com'' (Some ''test123''))
       \<noteq> authenticate sample_compare sample_sign ''secret'' sample_store
           (login ''test@example.com'' (Some ''wrong''))"
  by (simp add: authenticate_def authenticate_with_def login_def findOne_unknown findOne_known
      sample_compare_def sample_user_def respond_def messages_differ)

text \<open>
  C2, amended: a lookup that finds no user, and a lookup that finds a user whose
  password the comparison refuses without an error, both get status 200, the view
  \<open>home/home\<close> and no cookie, but not the same message: the first gets
  \<open>bad_credentials\<close> and the second \<open>wrong_password\<close>, and the two texts differ. For an
  email in text form the lookup is \<open>findOne\<close> on the store, which trims the email.
\<close>

theorem authenticate_failure_responses:
  assumes "cmp (body_password (req_body r2)) (user_password u) = (None, False)"
  shows "authenticate_with cmp sg k (Inr None) r1
           = Responded (respond 200 (Render ''home/home'' (Message bad_credentials)))
         \<and> authenticate_with cmp sg k (Inr (Some u)) r2
           = Responded (respond 200 (Render ''home/home'' (Message wrong_password)))
         \<and> bad_credentials \<noteq> wrong_password
         \<and> (findOne st (body_email (req_body r1)) = None \<longrightarrow>
              authenticate cmp sg k st r1
                = Responded (respond 200 (Render ''home/home'' (Message bad_credentials))))
         \<and> (findOne st (body_email (req_body r2)) = Some u \<longrightarrow>
              authenticate cmp sg k st r2
                = Responded (respond 200 (Render ''home/home'' (Message wrong_password))))"
  using assms by (simp add: authenticate_def authenticate_with_def messages_differ)

theorem authenticate_failure_responses_witness:
  "authenticate sample_compare sample_sign ''secret'' sample_store
     (login ''nobody@example.com'' (Some ''test123''))
     = Responded (respond 200 (Render ''home/home'' (Message bad_credentials)))
   \<and> authenticate sample_compare sample_sign ''secret'' sample_store
       (login ''test@example.com'' (Some ''wrong''))
     = Responded (respond 200 (Render ''home/home'' (Message wrong_password)))"
proof -
  let ?r1 = "login ''nobody@example.com'' (Some ''test123'')"
  let ?r2 = "login ''test@example.com'' (Some ''wrong'')"
  let ?u = "sample_user\<lparr>user_createdAt := None, user_updatedAt := None,
                          user_version := None\<rparr>"
  have a: "findOne sample_store (body_email (req_body ?r1)) = None"
    by (simp add: login_def findOne_unknown)
  have b: "findOne sample_store (body_email (req_body ?r2)) = Some ?u"
    by (simp add: login_def findOne_known)
  have c: "sample_compare (body_password (req_body ?r2)) (user_password ?u) = (None, False)"
    by (simp add: login_def sample_compare_def sample_user_def)
  show ?thesis
    using a b
      authenticate_failure_responses [where st = sample_store and ?r1.0 = ?r1
        and ?r2.0 = ?r2 and u = ?u and cmp = sample_compare and sg = sample_sign
        and k = "''secret''", OF c]
    by simp
qed

text \<open>
  A login whose email is the stored one with white space around it finds the user, as
  the trimmed query does.
\<close>

lemma findOne_padded:
  "findOne sample_store (Some '' test@example.com '')
     = findOne sample_store (Some ''test@example.com'')"
proof -
  have "trim '' test@example.com '' = ''test@example.com''"
    by code_simp
  moreover have "trim ''test@example.com'' = ''test@example.com''"
    by code_simp
  ultimately show ?thesis
    by (simp add: findOne_def)
qed

text \<open>
  C3: when the lookup by email returns a user and the password comparison answers true,
  the response sets one cookie \<open>authToken\<close>, HTTP-only, whose value is the token signed
  for the payload holding that user without its password, with a lifetime of 86400
  seconds, and whose \<open>maxAge\<close> is the same 24 hours in milliseconds. The user is the
  record the lookup returns, which is the stored one read through the projection of
  \<open>findOne\<close> (lemma \<open>findOne_fields\<close>).
\<close>

theorem authenticate_issues_token:
  assumes "findOne st (body_email (req_body req)) = Some user"
    and "cmp (body_password (req_body req)) (user_password user) = (err, True)"
  shows "authenticate cmp sg k st req
           = Responded
               \<lparr>status = 200, reply = Render ''dashboard/dashboard'' NoData,
                cookies = [\<lparr>cookie_name = ''authToken'',
                            cookie_value =
                              sg \<lparr>payload_user = Some (user\<lparr>user_password := None\<rparr>)\<rparr> k 86400,
                            cookie_httpOnly = True, cookie_maxAge = 86400 * 1000\<rparr>]\<rparr>"
  using assms by (simp add: authenticate_def authenticate_with_def)

theorem authenticate_issues_token_witness:
  "authenticate sample_compare sample_sign ''secret'' sample_store
     (login ''test@example.com'' (Some ''test123''))
     = Responded
         \<lparr>status = 200, reply = Render ''dashboard/dashboard'' NoData,
          cookies = [\<lparr>cookie_name = ''authToken'',
                      cookie_value = sample_sign \<lparr>payload_user = Some sample_claim\<rparr>
                                       ''secret'' 86400,
                      cookie_httpOnly = True, cookie_maxAge = 86400000\<rparr>]\<rparr>"
proof -
  let ?req = "login ''test@example.com'' (Some ''test123'')"
  let ?u = "sample_user\<lparr>user_createdAt := None, user_updatedAt := None,
                          user_version := None\<rparr>"
  have a: "findOne sample_store (body_email (req_body ?req)) = Some ?u"
    by (simp add: login_def findOne_known)
  have b: "sample_compare (body_password (req_body ?req)) (user_password ?u) = (None, True)"
    by (simp add: login_def sample_compare_def sample_user_def)
  have c: "?u\<lparr>user_password := None\<rparr> = sample_claim"
    by (simp add: sample_claim_def sample_user_def)
  show ?thesis
    using a b c
      authenticate_issues_token [where st = sample_store and req = ?req and user = ?u
        and cmp = sample_compare and err = None and sg = sample_sign and k = "''secret''"]
    by simp
qed

text \<open>
  Whenever the comparison reports an error and no match, the error thrown in the
  callback leaves the handler.
\<close>

lemma compare_error_unhandled:
  "findOne st (body_email (req_body req)) = Some user \<Longrightarrow>
   cmp (body_password (req_body req)) (user_password user) = (Some e, False) \<Longrightarrow>
   \<exists>x. authenticate cmp sg k st req = Unhandled x"
  by (simp add: authenticate_def authenticate_with_def)

text \<open>
  C6: a login for a stored email that carries no password makes the comparison report
  an error; \<open>authenticate\<close> then sends no response at all, neither a server error nor
  the authentication failure: the error escapes.
\<close>

theorem compare_error_escapes:
  "sample_compare None (user_password sample_user)
     = (Some ''Illegal arguments: undefined, string'', False)
   \<and> authenticate sample_compare sample_sign ''secret'' sample_store
       (login ''test@example.com'' None)
     = Unhandled \<lparr>err_name = ''Error'', err_kind = None, err_code = None, err_errors = [],
                  err_message = ''Illegal arguments: undefined, string''\<rparr>"
  by (simp add: authenticate_def authenticate_with_def login_def findOne_known
      sample_compare_def sample_user_def)

section \<open>Properties of the catch blocks\<close>

text \<open>
  The status given to an unexpected failure by each operation: 501 in five operations
  of the users controller, 500 everywhere else.
\<close>

lemma unexpected_status:
  "unexpected e \<Longrightarrow>
     status (catch_block op e)
       = (if op \<in> {Users_update, Users_edit, Users_delete, Users_authenticate,
                    Users_getUsersList} then 501 else 500)"
  by (cases op) (simp_all add: unexpected_def respond_def internal_server_error_def)

text \<open>
  C5: when the database call of the users \<open>update\<close> fails with a connection error, the
  answer is status 501 with the error itself as body, whereas \<open>getById\<close> of the same
  controller and \<open>getAll\<close> of the catways controller answer the same error with 500.
\<close>

theorem users_update_unexpected_failure:
  "unexpected connection_lost
   \<and> users_update (\<lambda>i. Inl connection_lost) Inr empty_request
       = respond 501 (Json (ErrorObject connection_lost))
   \<and> catch_block Users_getById connection_lost
       = respond 500 (Json (InternalServerError connection_lost))
   \<and> catch_block Catways_getAll connection_lost
       = respond 500 (Json (InternalServerError connection_lost))"
  by (simp add: unexpected_def connection_lost_def users_update_def
      internal_server_error_def)

section \<open>Properties of the store\<close>

lemma remove_first_absent: "find P xs = None \<Longrightarrow> remove_first P xs = xs"
  by (induction xs) (auto split: if_splits)

lemma remove_first_length: "find P xs = Some x \<Longrightarrow> Suc (length (remove_first P xs)) = length xs"
  by (induction xs) (auto split: if_splits)

lemma remove_first_subset: "set (remove_first P xs) \<subseteq> set xs"
  by (induction xs) auto

lemma remove_first_distinct:
  "distinct (map f xs) \<Longrightarrow> distinct (map f (remove_first P xs))"
proof (induction xs)
  case Nil
  then show ?case by simp
next
  case (Cons x xs)
  then show ?case
    using remove_first_subset [of P xs] by auto
qed

lemma remove_first_gone:
  "distinct (map f xs) \<Longrightarrow> find (\<lambda>x. f x = i) (remove_first (\<lambda>x. f x = i) xs) = None"
proof (induction xs)
  case Nil
  then show ?case by simp
next
  case (Cons x xs)
  show ?case
  proof (cases "f x = i")
    case True
    then have "i \<notin> f ` set xs" using Cons.prems by auto
    then have "find (\<lambda>x. f x = i) xs = None"
      by (auto simp: find_None_iff)
    with True show ?thesis by simp
  next
    case False
    then show ?thesis using Cons by simp
  qed
qed

section \<open>Properties of the entity operations\<close>

lemma reservation_dates_rejected:
  assumes "data_checkIn d = Some ci" and "data_checkOut d = Some co"
    and "\<not> ci < co \<or> ci < now"
  shows "reservation_messages now d \<noteq> []"
  using assms by (auto simp: reservation_messages_def validate_reservation_def)

lemma reservation_dates_accepted:
  assumes "other_fields_valid d" and "data_checkIn d = Some ci" and "data_checkOut d = Some co"
    and "ci < co" and "now \<le> ci"
  shows "reservation_messages now d = []"
  using assms
  by (auto simp: reservation_messages_def validate_reservation_def other_fields_valid_def
      check_string_def Let_def split: option.splits)

text \<open>
  C7: a reservation whose check-out is not strictly after its check-in, or whose
  check-in is before the clock at validation, is refused with a validation error, which
  the \<open>add\<close> controller answers with status 400 and the messages. A reservation whose
  other fields pass the schema, whose check-out is strictly after its check-in and whose
  check-in is not before the clock is stored with these dates.
\<close>

theorem reservation_dates:
  "(\<forall>ci co. data_checkIn d = Some ci \<and> data_checkOut d = Some co \<and> (\<not> ci < co \<or> ci < now)
      \<longrightarrow> (\<exists>msgs. msgs \<noteq> []
             \<and> creatReservation oid now st d = Inl (validation_error msgs)
             \<and> catch_block Reservations_add (validation_error msgs)
                 = respond 400 (Render ''error/error'' (Errors msgs))))
   \<and> (\<forall>ci co. other_fields_valid d \<and> data_checkIn d = Some ci \<and> data_checkOut d = Some co
          \<and> ci < co \<and> now \<le> ci
      \<longrightarrow> (\<exists>r. creatReservation oid now st d
                  = Inr (r, st\<lparr>reservations := reservations st @ [r]\<rparr>)
             \<and> checkIn r = ci \<and> checkOut r = co))"
proof (intro conjI allI impI)
  fix ci co
  assume h: "data_checkIn d = Some ci \<and> data_checkOut d = Some co \<and> (\<not> ci < co \<or> ci < now)"
  then have "reservation_messages now d \<noteq> []"
    using reservation_dates_rejected [of d ci co now] by blast
  then show "\<exists>msgs. msgs \<noteq> []
             \<and> creatReservation oid now st d = Inl (validation_error msgs)
             \<and> catch_block Reservations_add (validation_error msgs)
                 = respond 400 (Render ''error/error'' (Errors msgs))"
    by (intro exI [of _ "reservation_messages now d"])
      (simp add: creatReservation_def validation_error_def validation_failed_def)
next
  fix ci co
  assume h: "other_fields_valid d \<and> data_checkIn d = Some ci \<and> data_checkOut d = Some co
          \<and> ci < co \<and> now \<le> ci"
  then have m: "reservation_messages now d = []"
    using reservation_dates_accepted [of d ci co now] by blast
  from h obtain n where "data_catwayNumber d = Some n"
    by (auto simp: other_fields_valid_def split: option.splits)
  with h m show "\<exists>r. creatReservation oid now st d
                  = Inr (r, st\<lparr>reservations := reservations st @ [r]\<rparr>)
             \<and> checkIn r = ci \<and> checkOut r = co"
    by (simp add: creatReservation_def Let_def)
qed


theorem reservation_dates_witness:
  "(\<exists>msgs. msgs \<noteq> []
      \<and> creatReservation 0x64B0C0FFEE0000000000E002 sample_now sample_store
           (sample_reservation_data\<lparr>data_checkOut := Some 1800000000000\<rparr>)
          = Inl (validation_error msgs))
   \<and> (\<exists>r. creatReservation 0x64B0C0FFEE0000000000E002 sample_now sample_store
              sample_reservation_data
            = Inr (r, sample_store\<lparr>reservations := reservations sample_store @ [r]\<rparr>)
          \<and> checkIn r = 1800000000000 \<and> checkOut r = 1800086400000)"
proof -
  let ?bad = "sample_reservation_data\<lparr>data_checkOut := Some 1800000000000\<rparr>"
  have a: "data_checkIn ?bad = Some 1800000000000 \<and> data_checkOut ?bad = Some 1800000000000
            \<and> (\<not> (1800000000000::int) < 1800000000000 \<or> (1800000000000::int) < sample_now)"
    by (simp add: sample_reservation_data_def)
  have b: "other_fields_valid sample_reservation_data
            \<and> data_checkIn sample_reservation_data = Some 1800000000000
            \<and> data_checkOut sample_reservation_data = Some 1800086400000
            \<and> (1800000000000::int) < 1800086400000 \<and> sample_now \<le> 1800000000000"
    by code_simp
  show ?thesis
    using a b
      reservation_dates [where d = ?bad and now = sample_now and st = sample_store
        and oid = "0x64B0C0FFEE0000000000E002"]
      reservation_dates [where d = sample_reservation_data and now = sample_now
        and st = sample_store and oid = "0x64B0C0FFEE0000000000E002"]
    by blast
qed

text \<open>
  The same at the controller: once the catway is found, \<open>add\<close> answers 200 when the
  schema has no complaint and 400 otherwise.
\<close>

lemma creatReservation_refused:
  "reservation_messages now d \<noteq> [] \<Longrightarrow>
     creatReservation oid now st d = Inl (validation_error (reservation_messages now d))"
  by (simp add: creatReservation_def)

lemma creatReservation_stored:
  "reservation_messages now d = [] \<Longrightarrow>
     \<exists>r. creatReservation oid now st d = Inr (r, st\<lparr>reservations := reservations st @ [r]\<rparr>)"
  by (auto simp: creatReservation_def reservation_messages_def validate_reservation_def Let_def
      split: option.splits)

lemma reservations_add_status:
  assumes "getCatwayById st (param_id req) = Inr (Some catway)"
  shows "status (sent (reservations_add oid now st req))
           = (if reservation_messages now
                   \<lparr>data_catwayNumber = Some (catwayNumber catway),
                    data_clientName = body_clientName (req_body req),
                    data_boatName = Some (catway_boatName catway),
                    data_checkIn = body_checkIn (req_body req),
                    data_checkOut = body_checkOut (req_body req)\<rparr> = []
              then 200 else 400)"
proof -
  let ?d = "\<lparr>data_catwayNumber = Some (catwayNumber catway),
            data_clientName = body_clientName (req_body req),
            data_boatName = Some (catway_boatName catway),
            data_checkIn = body_checkIn (req_body req),
            data_checkOut = body_checkOut (req_body req)\<rparr>"
  show ?thesis
  proof (cases "reservation_messages now ?d = []")
    case True
    then obtain r where
      "creatReservation oid now st ?d = Inr (r, st\<lparr>reservations := reservations st @ [r]\<rparr>)"
      using creatReservation_stored by blast
    with True assms show ?thesis
      by (simp add: reservations_add_def Let_def respond_def)
  next
    case False
    with assms show ?thesis
      by (simp add: reservations_add_def creatReservation_refused Let_def
          validation_error_def validation_failed_def respond_def)
  qed
qed

text \<open>Creating and deleting catways keeps the catway numbers of the store distinct.\<close>

lemma addCatway_keeps_distinct:
  assumes "distinct (map catwayNumber (catways st))"
    and "addCatway oid st b = Inr (c, st')"
  shows "distinct (map catwayNumber (catways st'))"
  using assms
  by (auto simp: addCatway_def Let_def split: if_splits option.splits)

lemma catways_add_keeps_distinct:
  "distinct (map catwayNumber (catways st)) \<Longrightarrow>
     distinct (map catwayNumber (catways (new_store (catways_add oid st req))))"
  by (auto simp: catways_add_def dest: addCatway_keeps_distinct split: sum.splits)

lemma catways_delete_keeps_distinct:
  "distinct (map catwayNumber (catways st)) \<Longrightarrow>
     distinct (map catwayNumber (catways (new_store (catways_delete st req))))"
  by (auto simp: catways_delete_def deleteCatway_def Let_def remove_first_distinct
      split: sum.splits option.splits if_splits)

lemma duplicate_answer:
  "catch_block Catways_add (duplicate_key_error field)
     = respond 400 (Render ''error/error'' (Errors [catway_number_exists]))"
  by (simp add: duplicate_key_error_def)

lemma catways_add_refused:
  "addCatway oid s (req_body req) = Inl e \<Longrightarrow>
     sent (catways_add oid s req) = catch_block Catways_add e
     \<and> new_store (catways_add oid s req) = s"
  by (simp add: catways_add_def)

text \<open>
  C8: two creations with the same catway number and valid fields, against a store
  whose numbers are distinct. The first is stored and answered with a redirect when the
  store does not hold the number yet. After it the store holds the number, so the second
  fails with the duplicate-key error 11000; the \<open>add\<close> controller answers it with status
  400 and the message that the number exists already, and the store is left as it was.
  The numbers of the store are distinct after each of the two.
\<close>

theorem catway_number_unique:
  assumes "validate_catway (req_body r1) = []" and "validate_catway (req_body r2) = []"
    and "body_catwayNumber (req_body r1) = Some n"
    and "body_catwayNumber (req_body r2) = Some n"
    and "distinct (map catwayNumber (catways st))"
  shows "(n \<notin> set (map catwayNumber (catways st)) \<longrightarrow>
            status (sent (catways_add oid1 st r1)) = 302
            \<and> (\<exists>c. addCatway oid1 st (req_body r1) = Inr (c, new_store (catways_add oid1 st r1))
                   \<and> catwayNumber c = n))
         \<and> n \<in> set (map catwayNumber (catways (new_store (catways_add oid1 st r1))))
         \<and> distinct (map catwayNumber (catways (new_store (catways_add oid1 st r1))))
         \<and> addCatway oid2 (new_store (catways_add oid1 st r1)) (req_body r2)
             = Inl (duplicate_key_error ''catwayNumber'')
         \<and> sent (catways_add oid2 (new_store (catways_add oid1 st r1)) r2)
             = respond 400 (Render ''error/error'' (Errors [catway_number_exists]))
         \<and> new_store (catways_add oid2 (new_store (catways_add oid1 st r1)) r2)
             = new_store (catways_add oid1 st r1)"
proof -
  let ?st1 = "new_store (catways_add oid1 st r1)"
  have dist: "distinct (map catwayNumber (catways ?st1))"
    using assms(5) by (rule catways_add_keeps_distinct)
  have first: "n \<notin> set (map catwayNumber (catways st)) \<longrightarrow>
            status (sent (catways_add oid1 st r1)) = 302
            \<and> (\<exists>c. addCatway oid1 st (req_body r1) = Inr (c, ?st1) \<and> catwayNumber c = n)"
    using assms by (simp add: catways_add_def addCatway_def Let_def respond_def)
  have stored: "n \<in> set (map catwayNumber (catways ?st1))"
  proof (cases "n \<in> set (map catwayNumber (catways st))")
    case True
    with assms show ?thesis
      by (simp add: catways_add_def addCatway_def)
  next
    case False
    with assms show ?thesis
      by (simp add: catways_add_def addCatway_def Let_def)
  qed
  then have second: "addCatway oid2 ?st1 (req_body r2) = Inl (duplicate_key_error ''catwayNumber'')"
    using assms(2,4) by (simp add: addCatway_def)
  have "sent (catways_add oid2 ?st1 r2)
               = respond 400 (Render ''error/error'' (Errors [catway_number_exists]))"
    and "new_store (catways_add oid2 ?st1 r2) = ?st1"
    using catways_add_refused [OF second] by (simp_all only: duplicate_answer)
  with first stored dist second show ?thesis
    by blast
qed

theorem catway_number_unique_witness:
  "status (sent (catways_add 0x64B0C0FFEE0000000000C002 sample_store
      (empty_request\<lparr>req_body := sample_catway_body\<rparr>))) = 302
   \<and> sent (catways_add 0x64B0C0FFEE0000000000C003
        (new_store (catways_add 0x64B0C0FFEE0000000000C002 sample_store
           (empty_request\<lparr>req_body := sample_catway_body\<rparr>)))
        (empty_request\<lparr>req_body := sample_catway_body\<lparr>body_boatName := Some ''Lyra''\<rparr>\<rparr>))
       = respond 400 (Render ''error/error'' (Errors [catway_number_exists]))"
proof -
  let ?r1 = "empty_request\<lparr>req_body := sample_catway_body\<rparr>"
  let ?r2 = "empty_request\<lparr>req_body := sample_catway_body\<lparr>body_boatName := Some ''Lyra''\<rparr>\<rparr>"
  have a: "validate_catway (req_body ?r1) = []"
    by code_simp
  have b: "validate_catway (req_body ?r2) = []"
    by code_simp
  have c: "body_catwayNumber (req_body ?r1) = Some 12"
    and d: "body_catwayNumber (req_body ?r2) = Some 12"
    by (simp_all add: sample_catway_body_def)
  have e: "12 \<notin> set (map catwayNumber (catways sample_store))"
    and f: "distinct (map catwayNumber (catways sample_store))"
    by (simp_all add: sample_store_def sample_catway_def)
  show ?thesis
    using e catway_number_unique [OF a b c d f, of "0x64B0C0FFEE0000000000C002"
        "0x64B0C0FFEE0000000000C003"]
    by simp
qed

text \<open>
  C9: a delete whose identifier is well formed, that is, casts to an \<open>ObjectId\<close>, and
  matches no stored document does not answer 404. The service returns \<open>null\<close>, reading
  \<open>boatName\<close> or \<open>name\<close> of it raises a \<open>TypeError\<close>, and the \<open>catch\<close> block answers 500
  for catways and reservations and 501 for users; the store is unchanged.
\<close>

theorem delete_missing_entity:
  assumes "cast_object_id i = Some oid"
  shows "(find (\<lambda>c. catway_id c = oid) (catways st) = None \<longrightarrow>
            catways_delete st (req\<lparr>param_id := i\<rparr>)
              = \<lparr>new_store = st, new_session = session_message req,
                 sent = respond 500 (Json (InternalServerError (type_error ''boatName'')))\<rparr>)
         \<and> (find (\<lambda>r. resv_id r = oid) (reservations st) = None \<longrightarrow>
            reservations_delete show_date st (req\<lparr>param_idReservation := i\<rparr>)
              = \<lparr>new_store = st, new_session = session_message req,
                 sent = respond 500 (Json (InternalServerError (type_error ''boatName'')))\<rparr>)
         \<and> (find (\<lambda>u. user_id u = oid) (users st) = None \<longrightarrow>
            users_delete st (req\<lparr>param_id := i\<rparr>)
              = \<lparr>new_store = st, new_session = session_message req,
                 sent = respond 501 (Json (ErrorObject (type_error ''name'')))\<rparr>)"
  using assms
  by (simp add: catways_delete_def reservations_delete_def users_delete_def deleteCatway_def
      deleteReservation_def deleteUser_def remove_first_absent type_error_def
      internal_server_error_def)

theorem delete_missing_entity_witness:
  "status (sent (catways_delete sample_store (empty_request\<lparr>param_id := missing_id\<rparr>))) = 500
   \<and> status (sent (reservations_delete (\<lambda>d. ''date'') sample_store
        (empty_request\<lparr>param_idReservation := missing_id\<rparr>))) = 500
   \<and> status (sent (users_delete sample_store (empty_request\<lparr>param_id := missing_id\<rparr>))) = 501"
proof -
  have v: "cast_object_id missing_id = Some 0x64B0C0FFEE0000000000FFFF"
    by code_simp
  have a: "find (\<lambda>c. catway_id c = 0x64B0C0FFEE0000000000FFFF) (catways sample_store) = None"
    and b: "find (\<lambda>r. resv_id r = 0x64B0C0FFEE0000000000FFFF) (reservations sample_store)
             = None"
    and c: "find (\<lambda>u. user_id u = 0x64B0C0FFEE0000000000FFFF) (users sample_store) = None"
    by (simp_all add: sample_store_def sample_catway_def sample_reservation_def
        sample_user_def)
  show ?thesis
    using a b c
      delete_missing_entity [OF v, of sample_store empty_request "\<lambda>d. ''date''"]
    by (simp add: respond_def)
qed

text \<open>
  The cast does not depend on the case of the digits: the upper-case spelling of a
  stored identifier is the stored identifier, and the delete removes the document.
\<close>

lemma cast_upper_case:
  "cast_object_id ''64B0C0FFEE0000000000C001'' = cast_object_id ''64b0c0ffee0000000000c001''"
  by code_simp

lemma delete_upper_case_identifier:
  "catways_delete sample_store
     (empty_request\<lparr>param_id := ''64B0C0FFEE0000000000C001'', referer := Some ''/catways''\<rparr>)
     = catways_delete sample_store
         (empty_request\<lparr>param_id := ''64b0c0ffee0000000000c001'', referer := Some ''/catways''\<rparr>)
   \<and> catways (new_store (catways_delete sample_store
         (empty_request\<lparr>param_id := ''64B0C0FFEE0000000000C001'',
                         referer := Some ''/catways''\<rparr>))) = []"
proof -
  have "cast_object_id ''64B0C0FFEE0000000000C001'' = Some 0x64B0C0FFEE0000000000C001"
    "cast_object_id ''64b0c0ffee0000000000c001'' = Some 0x64B0C0FFEE0000000000C001"
    by code_simp+
  then show ?thesis
    by (auto simp: catways_delete_def deleteCatway_def sample_store_def sample_catway_def
        Let_def)
qed

text \<open>
  C10: when the catway or the reservation exists and the request has no \<open>referer\<close>
  header, the delete answers 500 although the document has been removed from the
  store: the store is one document shorter, and no document with this identifier is
  left when identifiers are distinct.
\<close>

theorem delete_without_referer:
  "(cast_object_id (param_id req) = Some oid
      \<and> find (\<lambda>c. catway_id c = oid) (catways st) = Some c \<and> referer req = None
    \<longrightarrow> status (sent (catways_delete st req)) = 500
        \<and> catways (new_store (catways_delete st req))
            = remove_first (\<lambda>c. catway_id c = oid) (catways st)
        \<and> Suc (length (catways (new_store (catways_delete st req)))) = length (catways st)
        \<and> (distinct (map catway_id (catways st)) \<longrightarrow>
             find (\<lambda>c. catway_id c = oid) (catways (new_store (catways_delete st req)))
               = None))
   \<and> (cast_object_id (param_idReservation req) = Some rid
      \<and> find (\<lambda>r. resv_id r = rid) (reservations st) = Some r
      \<and> referer req = None
    \<longrightarrow> status (sent (reservations_delete show_date st req)) = 500
        \<and> reservations (new_store (reservations_delete show_date st req))
            = remove_first (\<lambda>r. resv_id r = rid) (reservations st)
        \<and> Suc (length (reservations (new_store (reservations_delete show_date st req))))
            = length (reservations st)
        \<and> (distinct (map resv_id (reservations st)) \<longrightarrow>
             find (\<lambda>r. resv_id r = rid)
               (reservations (new_store (reservations_delete show_date st req))) = None))"
  by (simp add: catways_delete_def reservations_delete_def deleteCatway_def
      deleteReservation_def Let_def remove_first_length remove_first_gone type_error_def
      internal_server_error_def respond_def)

theorem delete_without_referer_witness:
  "status (sent (catways_delete sample_store
      (empty_request\<lparr>param_id := ''64b0c0ffee0000000000c001''\<rparr>))) = 500
   \<and> catways (new_store (catways_delete sample_store
        (empty_request\<lparr>param_id := ''64b0c0ffee0000000000c001''\<rparr>))) = []
   \<and> status (sent (reservations_delete (\<lambda>d. ''date'') sample_store
        (empty_request\<lparr>param_idReservation := ''64b0c0ffee0000000000e001''\<rparr>))) = 500
   \<and> reservations (new_store (reservations_delete (\<lambda>d. ''date'') sample_store
        (empty_request\<lparr>param_idReservation := ''64b0c0ffee0000000000e001''\<rparr>))) = []"
proof -
  let ?rc = "empty_request\<lparr>param_id := ''64b0c0ffee0000000000c001''\<rparr>"
  let ?rr = "empty_request\<lparr>param_idReservation := ''64b0c0ffee0000000000e001''\<rparr>"
  let ?c = "0x64B0C0FFEE0000000000C001 :: int"
  let ?r = "0x64B0C0FFEE0000000000E001 :: int"
  have v: "cast_object_id (param_id ?rc) = Some ?c"
    "cast_object_id (param_idReservation ?rr) = Some ?r"
    by code_simp+
  have a: "find (\<lambda>c. catway_id c = ?c) (catways sample_store) = Some sample_catway"
    and b: "find (\<lambda>r. resv_id r = ?r) (reservations sample_store) = Some sample_reservation"
    by (simp_all add: sample_store_def sample_catway_def sample_reservation_def)
  have n: "referer ?rc = None" "referer ?rr = None"
    by (simp_all add: empty_request_def)
  have d: "distinct (map catway_id (catways sample_store))"
    "distinct (map resv_id (reservations sample_store))"
    by (simp_all add: sample_store_def)
  have e: "remove_first (\<lambda>c. catway_id c = ?c) (catways sample_store) = []"
    "remove_first (\<lambda>r. resv_id r = ?r) (reservations sample_store) = []"
    by (simp_all add: sample_store_def sample_catway_def sample_reservation_def)
  show ?thesis
    using v a b n d e
      delete_without_referer [where req = ?rc and st = sample_store and c = sample_catway
        and oid = ?c]
      delete_without_referer [where req = ?rr and st = sample_store
        and r = sample_reservation and rid = ?r and show_date = "\<lambda>d. ''date''"]
    by simp
qed

end
